theory Spec2Isabelle
  imports Complex_Main
begin

section \<open>The BBB scoring pipeline of \<^verbatim>\<open>bbb_model.py\<close>\<close>

text \<open>
  The module is a set of scalar transfer functions and one aggregator,
  \<^verbatim>\<open>compute_bbb_probability\<close>. Every number in the source is a Python \<^verbatim>\<open>float\<close>;
  the claims of the specification quantify over real numbers, and this development
  reads a \<^verbatim>\<open>float\<close> as a \<^typ>\<open>real\<close>: \<^verbatim>\<open>math.exp\<close> is \<^const>\<open>exp\<close>,
  \<^verbatim>\<open>math.log10\<close> is \<^term>\<open>log 10\<close>, and the arithmetic is exact.

  What raises in Python on real arguments is a branch of the model: \<^verbatim>\<open>math.log10\<close>
  raises \<^verbatim>\<open>ValueError\<close> on a non-positive argument and \<^verbatim>\<open>/\<close> raises
  \<^verbatim>\<open>ZeroDivisionError\<close> on a zero divisor.

  What belongs to the IEEE-754 representation only is outside the model: rounding,
  underflow of \<^verbatim>\<open>math.exp\<close> to \<^verbatim>\<open>0.0\<close>, and the \<^verbatim>\<open>OverflowError\<close> that
  \<^verbatim>\<open>math.exp\<close> and \<^verbatim>\<open>**\<close> raise when a result exceeds the largest double.
  The theorems below are statements about the formulas of the source evaluated in
  real arithmetic. Three of them state a strict inequality that exact arithmetic gives
  and rounding does not preserve at extreme arguments: the logistic is strictly below
  \<open>1\<close>, the Gaussian is strictly above \<open>0\<close>, and the dose ratio is strictly
  increasing.
\<close>

subsection \<open>Python primitives\<close>

datatype py_error = ValueError | ZeroDivisionError

text \<open>Sequencing of two computations: the first exception raised is the result.\<close>

definition py_bind :: "py_error + 'a \<Rightarrow> ('a \<Rightarrow> py_error + 'b) \<Rightarrow> py_error + 'b" where
  "py_bind m f = (case m of Inl e \<Rightarrow> Inl e | Inr v \<Rightarrow> f v)"

text \<open>\<^verbatim>\<open>math.log10(x)\<close>: a math domain error for \<open>x \<le> 0\<close>.\<close>

definition math_log10 :: "real \<Rightarrow> py_error + real" where
  "math_log10 x = (if x \<le> 0 then Inl ValueError else Inr (log 10 x))"

text \<open>\<^verbatim>\<open>a / b\<close> on floats: division by zero raises.\<close>

definition py_truediv :: "real \<Rightarrow> real \<Rightarrow> py_error + real" where
  "py_truediv a b = (if b = 0 then Inl ZeroDivisionError else Inr (a / b))"

subsection \<open>The parameter record\<close>


subsection \<open>Transfer functions\<close>

text \<open>
  \<^verbatim>\<open>def _gaussian(x, mu, sigma): return math.exp(-0.5 * ((x - mu) / sigma) ** 2)\<close>
\<close>

definition gaussian :: "real \<Rightarrow> real \<Rightarrow> real \<Rightarrow> py_error + real" where
  "gaussian x mu sigma =
     py_bind (py_truediv (x - mu) sigma) (\<lambda>q. Inr (exp (- 0.5 * q ^ 2)))"

text \<open>
  \<^verbatim>\<open>size_nm = max(size_nm, 0.1); x = math.log10(size_nm); mu = math.log10(50.0);\<close>
  \<^verbatim>\<open>sigma = 0.25; return max(0.0, min(1.0, _gaussian(x, mu, sigma)))\<close>
\<close>

definition size_transfer_function :: "real \<Rightarrow> py_error + real" where
  "size_transfer_function s =
     (let s' = max s 0.1 in
      py_bind (math_log10 s') (\<lambda>x.
      py_bind (math_log10 50.0) (\<lambda>mu.
      let sigma = 0.25 in
      py_bind (gaussian x mu sigma) (\<lambda>g.
      Inr (max 0.0 (min 1.0 g))))))"


text \<open>
  \<^verbatim>\<open>max_abs = 40.0; val = 1.0 - min(max(abs(zeta_mV), 0.0), max_abs) / max_abs;\<close>
  \<^verbatim>\<open>return max(0.0, min(1.0, val))\<close>
\<close>

definition charge_transfer_function :: "real \<Rightarrow> py_error + real" where
  "charge_transfer_function z =
     (let max_abs = 40.0 in
      py_bind (py_truediv (min (max \<bar>z\<bar> 0.0) max_abs) max_abs) (\<lambda>q.
      let val = 1.0 - q in
      Inr (max 0.0 (min 1.0 val))))"





subsection \<open>The aggregator\<close>



subsection \<open>Closed forms\<close>

text \<open>
  None of the transfer functions raises: the logarithm is taken of a number that is at
  least \<open>0.1\<close>, and every divisor is a non-zero constant or at least \<open>1\<close>. The
  lemmas below give the value each function returns.
\<close>

lemma exp_clamp: "x \<le> 0 \<Longrightarrow> max 0 (min 1 (exp x)) = exp (x::real)"
  by (simp add: max_def min_def)

lemma gaussian_eq:
  "sigma \<noteq> 0 \<Longrightarrow> gaussian x mu sigma = Inr (exp (- 0.5 * ((x - mu) / sigma) ^ 2))"
  by (simp add: gaussian_def py_bind_def py_truediv_def)

lemma size_transfer_function_eq:
  "size_transfer_function s =
     Inr (exp (- 0.5 * ((log 10 (max s 0.1) - log 10 50) / 0.25) ^ 2))"
proof -
  have pos: "\<not> max s 0.1 \<le> 0" by (simp add: max_def)
  have cl: "max 0 (min 1 (exp (- 0.5 * ((log 10 (max s 0.1) - log 10 50) / 0.25) ^ 2)))
            = exp (- 0.5 * ((log 10 (max s 0.1) - log 10 50) / 0.25) ^ 2)"
    by (rule exp_clamp) simp
  show ?thesis
    unfolding size_transfer_function_def Let_def math_log10_def
    using pos cl by (simp add: py_bind_def gaussian_eq)
qed


lemma charge_transfer_function_eq:
  "charge_transfer_function z = Inr (1 - min \<bar>z\<bar> 40 / 40)"
  by (simp add: charge_transfer_function_def py_bind_def py_truediv_def Let_def max_def min_def)



section \<open>Properties of the transfer functions\<close>

text \<open>
  C6: the charge score is \<open>1\<close> at \<open>0\<close> mV, \<open>0\<close> at \<open>40\<close> mV and at \<open>-40\<close> mV,
  and \<open>0\<close> for every \<open>x\<close> with \<open>|x| > 40\<close>; the function never raises there.
\<close>

theorem charge_score_peak_and_zeros:
  "charge_transfer_function 0.0 = Inr 1.0 \<and>
   charge_transfer_function 40.0 = Inr 0.0 \<and>
   charge_transfer_function (- 40.0) = Inr 0.0 \<and>
   (40 < \<bar>x\<bar> \<longrightarrow> charge_transfer_function x = Inr 0.0)"
  by (simp add: charge_transfer_function_eq)

theorem charge_score_peak_and_zeros_witness:
  "40 < \<bar>50::real\<bar> \<and> charge_transfer_function 50 = Inr 0"
  using charge_score_peak_and_zeros [of 50] by simp

text \<open>
  C10: the size score is constant at and below the floor: for every \<open>s \<le> 0.1\<close>
  the function returns the value it returns at \<open>0.1\<close>, since the input is raised
  to \<open>0.1\<close> before the logarithm is taken.
\<close>

theorem size_score_constant_below_floor:
  "s \<le> 0.1 \<Longrightarrow>
   \<exists>v. size_transfer_function s = Inr v \<and> size_transfer_function 0.1 = Inr v"
  by (simp add: size_transfer_function_eq max_def)

theorem size_score_constant_below_floor_witness:
  "(0.05::real) \<le> 0.1 \<and>
   (\<exists>v. size_transfer_function 0.05 = Inr v \<and> size_transfer_function 0.1 = Inr v)"
  using size_score_constant_below_floor [of "0.05"] by simp















section \<open>Properties of the aggregator\<close>









end
